theory Spec2Isabelle
  imports Complex_Main "HOL-Library.AList" "HOL-Library.Char_ord" "HOL-Library.List_Lexorder"
begin

section \<open>The dimension registry (dimensions.py)\<close>

text \<open>
  Every dimension is a Python \<open>Enum\<close> class. The ten classes are the constructors of
  \<open>dim_class\<close>; a member of such a class carries its class, its name and its \<open>.value\<close>.
  Within each class all values are different, so no member is an alias and iterating a
  class yields every declared member, in declaration order.
\<close>

datatype dim_class =
    FormatVariation
  | StructuralArchitecture
  | ModelOrchestration
  | ContextRepresentation
  | InstructionSemantics
  | VerificationProtocol
  | MetaCognitiveScaffolding
  | ConstraintArchitecture
  | CrossModalTranslation
  | TemporalDynamics

record enum_member =
  member_class :: dim_class
  member_name :: string
  member_value :: string

text \<open>\<open>dim_class.__name__\<close>\<close>

fun class_name :: "dim_class \<Rightarrow> string" where
  "class_name FormatVariation = ''FormatVariation''"
| "class_name StructuralArchitecture = ''StructuralArchitecture''"
| "class_name ModelOrchestration = ''ModelOrchestration''"
| "class_name ContextRepresentation = ''ContextRepresentation''"
| "class_name InstructionSemantics = ''InstructionSemantics''"
| "class_name VerificationProtocol = ''VerificationProtocol''"
| "class_name MetaCognitiveScaffolding = ''MetaCognitiveScaffolding''"
| "class_name ConstraintArchitecture = ''ConstraintArchitecture''"
| "class_name CrossModalTranslation = ''CrossModalTranslation''"
| "class_name TemporalDynamics = ''TemporalDynamics''"

definition declare_members :: "dim_class \<Rightarrow> (string \<times> string) list \<Rightarrow> enum_member list" where
  "declare_members cls decls =
     map (\<lambda>(n, v). \<lparr>member_class = cls, member_name = n, member_value = v\<rparr>) decls"

text \<open>\<open>list(dim_class)\<close>: the members of a class in declaration order.\<close>

fun members :: "dim_class \<Rightarrow> enum_member list" where
  "members FormatVariation = declare_members FormatVariation
     [(''NATURAL_LANGUAGE'', ''natural_language''), (''XML'', ''xml''), (''JSON'', ''json''),
      (''YAML'', ''yaml''), (''CODE'', ''code''), (''LATEX'', ''latex''),
      (''DIAGRAMS'', ''diagrams''), (''HYBRID'', ''hybrid'')]"
| "members StructuralArchitecture = declare_members StructuralArchitecture
     [(''FLAT'', ''flat''), (''HIERARCHICAL'', ''hierarchical''), (''GRAPH'', ''graph''),
      (''TREE'', ''tree''), (''MESH'', ''mesh''), (''LAYERED'', ''layered'')]"
| "members ModelOrchestration = declare_members ModelOrchestration
     [(''SINGLE'', ''single''), (''SEQUENTIAL'', ''sequential''), (''PARALLEL'', ''parallel''),
      (''HIERARCHICAL'', ''hierarchical''), (''ENSEMBLE'', ''ensemble''),
      (''CASCADING'', ''cascading'')]"
| "members ContextRepresentation = declare_members ContextRepresentation
     [(''MINIMAL'', ''minimal''), (''EXTENDED'', ''extended''), (''CONTEXTUAL'', ''contextual''),
      (''GLOBAL'', ''global''), (''WINDOWED'', ''windowed''), (''DYNAMIC'', ''dynamic'')]"
| "members InstructionSemantics = declare_members InstructionSemantics
     [(''IMPERATIVE'', ''imperative''), (''DECLARATIVE'', ''declarative''),
      (''FUNCTIONAL'', ''functional''), (''CONSTRAINT_BASED'', ''constraint_based''),
      (''GOAL_ORIENTED'', ''goal_oriented''), (''EXAMPLE_BASED'', ''example_based'')]"
| "members VerificationProtocol = declare_members VerificationProtocol
     [(''NONE'', ''none''), (''BASIC'', ''basic''), (''COMPREHENSIVE'', ''comprehensive''),
      (''FORMAL'', ''formal''), (''STATISTICAL'', ''statistical''), (''HEURISTIC'', ''heuristic'')]"
| "members MetaCognitiveScaffolding = declare_members MetaCognitiveScaffolding
     [(''NONE'', ''none''), (''REFLECTION'', ''reflection''), (''PLANNING'', ''planning''),
      (''MONITORING'', ''monitoring''), (''EVALUATION'', ''evaluation''),
      (''ADAPTIVE'', ''adaptive'')]"
| "members ConstraintArchitecture = declare_members ConstraintArchitecture
     [(''UNCONSTRAINED'', ''unconstrained''), (''SOFT'', ''soft''), (''HARD'', ''hard''),
      (''ADAPTIVE'', ''adaptive''), (''HIERARCHICAL'', ''hierarchical''),
      (''NEGOTIABLE'', ''negotiable'')]"
| "members CrossModalTranslation = declare_members CrossModalTranslation
     [(''NONE'', ''none''), (''TEXT_TO_CODE'', ''text_to_code''),
      (''CODE_TO_TEXT'', ''code_to_text''), (''DIAGRAM_TO_TEXT'', ''diagram_to_text''),
      (''TEXT_TO_DIAGRAM'', ''text_to_diagram''), (''MULTIMODAL'', ''multimodal'')]"
| "members TemporalDynamics = declare_members TemporalDynamics
     [(''STATIC'', ''static''), (''SEQUENTIAL'', ''sequential''), (''CONCURRENT'', ''concurrent''),
      (''REAL_TIME'', ''real_time''), (''ADAPTIVE'', ''adaptive''), (''PREDICTIVE'', ''predictive'')]"

definition DIMENSION_CLASSES :: "dim_class list" where
  "DIMENSION_CLASSES =
     [FormatVariation, StructuralArchitecture, ModelOrchestration, ContextRepresentation,
      InstructionSemantics, VerificationProtocol, MetaCognitiveScaffolding,
      ConstraintArchitecture, CrossModalTranslation, TemporalDynamics]"

section \<open>Python values used by the generator\<close>

datatype py_error = ValueError | KeyError | ZeroDivisionError

text \<open>
  A \<open>dict\<close> whose insertion order matters is an association list with distinct keys:
  \<open>d[k] = v\<close> is \<open>AList.update k v d\<close> (an existing key keeps its position, a new key
  goes to the end), \<open>k in d\<close> and \<open>d[k]\<close> read \<open>map_of d k\<close>.
\<close>

type_synonym ('k, 'v) dict = "('k \<times> 'v) list"

text \<open>\<open>{name: value for name, value in pairs}\<close>\<close>

definition dict_of_pairs :: "('k \<times> 'v) list \<Rightarrow> ('k, 'v) dict" where
  "dict_of_pairs ps = foldl (\<lambda>d (k, v). AList.update k v d) [] ps"

text \<open>The truth value of an \<open>Optional[int]\<close> argument: \<open>None\<close> and \<open>0\<close> are false.\<close>

fun truthy :: "int option \<Rightarrow> bool" where
  "truthy None = False"
| "truthy (Some n) = (n \<noteq> 0)"

text \<open>\<open>xs[:n]\<close>: a negative bound counts from the end.\<close>

definition slice_to :: "'a list \<Rightarrow> int \<Rightarrow> 'a list" where
  "slice_to xs n = (if 0 \<le> n then take (nat n) xs else take (nat (int (length xs) + n)) xs)"

text \<open>\<open>sep.join(xs)\<close>\<close>

fun join :: "string \<Rightarrow> string list \<Rightarrow> string" where
  "join sep [] = []"
| "join sep [x] = x"
| "join sep (x # y # ys) = x @ sep @ join sep (y # ys)"

text \<open>
  \<open>itertools.product(*lists)\<close>: the Cartesian product as tuples, the rightmost list
  advancing fastest; with no list at all it yields the one empty tuple.
\<close>

primrec itertools_product :: "'a list list \<Rightarrow> 'a list list" where
  "itertools_product [] = [[]]"
| "itertools_product (xs # xss) =
     concat (map (\<lambda>x. map (\<lambda>rest. x # rest) (itertools_product xss)) xs)"

text \<open>
  \<open>itertools.combinations(xs, r)\<close>: the subsequences of length \<open>r\<close>, in lexicographic
  order of positions; a negative \<open>r\<close> raises \<open>ValueError\<close>.
\<close>

fun subsequences_of_length :: "'a list \<Rightarrow> nat \<Rightarrow> 'a list list" where
  "subsequences_of_length xs 0 = [[]]"
| "subsequences_of_length [] (Suc r) = []"
| "subsequences_of_length (x # xs) (Suc r) =
     map (\<lambda>rest. x # rest) (subsequences_of_length xs r) @ subsequences_of_length xs (Suc r)"

definition itertools_combinations :: "'a list \<Rightarrow> int \<Rightarrow> py_error + 'a list list" where
  "itertools_combinations xs r =
     (if r < 0 then Inl ValueError else Inr (subsequences_of_length xs (nat r)))"

section \<open>Combinations and the generator (combination\_generator.py)\<close>

record DimensionCombination =
  dimensions :: "(string, enum_member) dict"

text \<open>
  \<open>DimensionCombination.get_hash\<close>: the loop over \<open>DIMENSION_CLASSES\<close> appends one part
  for every class whose name is a key of the mapping; the parts are sorted and joined.
\<close>

fun get_hash_parts ::
  "dim_class list \<Rightarrow> (string, enum_member) dict \<Rightarrow> string list \<Rightarrow> string list" where
  "get_hash_parts [] d parts = parts"
| "get_hash_parts (dim_class # rest) d parts =
     (let dim_name = class_name dim_class
      in case map_of d dim_name of
           None \<Rightarrow> get_hash_parts rest d parts
         | Some v \<Rightarrow> get_hash_parts rest d (parts @ [dim_name @ '':'' @ member_value v]))"

definition get_hash :: "DimensionCombination \<Rightarrow> string" where
  "get_hash c = join ''|'' (sort (get_hash_parts DIMENSION_CLASSES (dimensions c) []))"

record CombinationGenerator =
  min_dimensions :: int
  max_dimensions :: int

text \<open>
  \<open>CombinationGenerator.__init__(min_dimensions, max_dimensions)\<close>;
  \<open>max_dimensions or len(DIMENSION_CLASSES)\<close> replaces \<open>None\<close> and \<open>0\<close> by the count.
\<close>

definition init :: "int \<Rightarrow> int option \<Rightarrow> CombinationGenerator" where
  "init min_dims max_dims =
     (let n = int (length DIMENSION_CLASSES);
          mx = (if truthy max_dims then the max_dims else n)
      in \<lparr>min_dimensions = max 2 min_dims, max_dimensions = min mx n\<rparr>)"

text \<open>\<open>generate_dimension_groups(size)\<close>; the method does not read \<open>self\<close>.\<close>

definition generate_dimension_groups :: "int \<Rightarrow> py_error + dim_class list list" where
  "generate_dimension_groups sz =
     (if sz < 2 \<or> sz > int (length DIMENSION_CLASSES) then Inr []
      else itertools_combinations DIMENSION_CLASSES sz)"

text \<open>The first loop of \<open>generate_combinations_for_group\<close>, one dimension at a time.\<close>

definition dimension_values_of :: "int option \<Rightarrow> dim_class \<Rightarrow> (string \<times> enum_member) list" where
  "dimension_values_of max_per_dimension dim_class =
     (let values = members dim_class;
          values = (if truthy max_per_dimension then slice_to values (the max_per_dimension)
                    else values)
      in map (\<lambda>v. (class_name dim_class, v)) values)"

text \<open>\<open>generate_combinations_for_group(dimension_group, max_per_dimension)\<close>\<close>

definition generate_combinations_for_group ::
  "dim_class list \<Rightarrow> int option \<Rightarrow> DimensionCombination list" where
  "generate_combinations_for_group dimension_group max_per_dimension =
     (let dimension_values = map (dimension_values_of max_per_dimension) dimension_group
      in map (\<lambda>combo. \<lparr>dimensions = dict_of_pairs combo\<rparr>) (itertools_product dimension_values))"

text \<open>
  \<open>generate_all_combinations\<close>. The result dictionary maps a group size to the list of
  its combinations. The inner loop over the groups of one size either runs to its end
  (\<open>Continue\<close>, with the dictionary and the running total), returns from the whole method
  (\<open>Return\<close>) or raises.
\<close>

type_synonym results_dict = "int \<rightharpoonup> DimensionCombination list"

datatype loop_result = Continue results_dict int | Return results_dict | Raise py_error

fun groups_loop ::
  "int option \<Rightarrow> int option \<Rightarrow> int \<Rightarrow> dim_class list list \<Rightarrow> results_dict \<Rightarrow> int \<Rightarrow> loop_result" where
  "groups_loop max_per_dimension max_total sz [] res total_count = Continue res total_count"
| "groups_loop max_per_dimension max_total sz (grp # groups) res total_count =
     (let combos = generate_combinations_for_group grp max_per_dimension
      in case res sz of
           None \<Rightarrow> Raise KeyError
         | Some old \<Rightarrow>
             (let res = res(sz \<mapsto> old @ combos);
                  total_count = total_count + int (length combos)
              in if truthy max_total \<and> total_count \<ge> the max_total then Return res
                 else groups_loop max_per_dimension max_total sz groups res total_count))"

fun sizes_loop ::
  "int option \<Rightarrow> int option \<Rightarrow> int list \<Rightarrow> results_dict \<Rightarrow> int \<Rightarrow> py_error + results_dict" where
  "sizes_loop max_per_dimension max_total [] res total_count = Inr res"
| "sizes_loop max_per_dimension max_total (sz # sizes) res total_count =
     (let res = res(sz \<mapsto> [])
      in case generate_dimension_groups sz of
           Inl e \<Rightarrow> Inl e
         | Inr dimension_groups \<Rightarrow>
             (case groups_loop max_per_dimension max_total sz dimension_groups res total_count of
                Continue res total_count \<Rightarrow>
                  sizes_loop max_per_dimension max_total sizes res total_count
              | Return res \<Rightarrow> Inr res
              | Raise e \<Rightarrow> Inl e))"

definition generate_all_combinations ::
  "CombinationGenerator \<Rightarrow> int option \<Rightarrow> int option \<Rightarrow> py_error + results_dict" where
  "generate_all_combinations self max_per_dimension max_total_combinations =
     sizes_loop max_per_dimension max_total_combinations
       [min_dimensions self .. max_dimensions self] Map.empty 0"

subsection \<open>Notions used to state the generator's properties\<close>

text \<open>
  The size the specification gives for the output of one group: the product over the
  group's dimensions of \<open>min(cap, variant count)\<close> when a cap is supplied, and of the
  variant count otherwise.
\<close>

definition spec_group_size :: "dim_class list \<Rightarrow> int option \<Rightarrow> int" where
  "spec_group_size grp cap =
     (case cap of
        None \<Rightarrow> prod_list (map (\<lambda>d. int (length (members d))) grp)
      | Some c \<Rightarrow> prod_list (map (\<lambda>d. min c (int (length (members d)))) grp))"

text \<open>The groups that \<open>generate_dimension_groups\<close> returns for a size.\<close>

definition groups_of_size :: "int \<Rightarrow> dim_class list list" where
  "groups_of_size k = (case generate_dimension_groups k of Inl e \<Rightarrow> [] | Inr gs \<Rightarrow> gs)"

text \<open>
  All groups in the order in which the two loops of \<open>generate_all_combinations\<close> visit
  them: size by size from \<open>min_dimensions\<close> to \<open>max_dimensions\<close>.
\<close>

definition all_groups :: "CombinationGenerator \<Rightarrow> dim_class list list" where
  "all_groups self = concat (map groups_of_size [min_dimensions self .. max_dimensions self])"

text \<open>What the result dictionary holds under a key; nothing when the key is absent.\<close>

definition lookup_or_empty :: "results_dict \<Rightarrow> int \<Rightarrow> DimensionCombination list" where
  "lookup_or_empty res k = (case res k of None \<Rightarrow> [] | Some cs \<Rightarrow> cs)"

text \<open>The complete outputs of a list of groups, one after the other.\<close>

definition outputs_of :: "int option \<Rightarrow> dim_class list list \<Rightarrow> DimensionCombination list" where
  "outputs_of cap gs = concat (map (\<lambda>g. generate_combinations_for_group g cap) gs)"

definition groups_with_size :: "int \<Rightarrow> dim_class list list \<Rightarrow> dim_class list list" where
  "groups_with_size k gs = filter (\<lambda>g. int (length g) = k) gs"

text \<open>The running total after the first \<open>m\<close> groups of a list.\<close>

definition total_after :: "int option \<Rightarrow> dim_class list list \<Rightarrow> nat \<Rightarrow> int" where
  "total_after cap gs m = int (length (outputs_of cap (take m gs)))"

text \<open>
  The number of leading groups that are emitted under a ceiling \<open>mt\<close> when the running
  total starts at \<open>t\<close>: groups are counted up to and including the first one after which
  the total has reached the ceiling.
\<close>

fun emitted_groups :: "int option \<Rightarrow> int \<Rightarrow> int \<Rightarrow> dim_class list list \<Rightarrow> nat" where
  "emitted_groups cap mt t [] = 0"
| "emitted_groups cap mt t (g # gs) =
     (let t' = t + int (length (generate_combinations_for_group g cap))
      in if mt \<le> t' then 1 else Suc (emitted_groups cap mt t' gs))"

section \<open>The executor (test\_executor.py)\<close>

datatype TestStatus = PENDING | RUNNING | PASSED | FAILED | SKIPPED | ERROR

text \<open>\<open>status.value\<close>, and the members in the order \<open>for status in TestStatus\<close> visits them.\<close>

fun status_value :: "TestStatus \<Rightarrow> string" where
  "status_value PENDING = ''pending''"
| "status_value RUNNING = ''running''"
| "status_value PASSED = ''passed''"
| "status_value FAILED = ''failed''"
| "status_value SKIPPED = ''skipped''"
| "status_value ERROR = ''error''"

definition all_statuses :: "TestStatus list" where
  "all_statuses = [PENDING, RUNNING, PASSED, FAILED, SKIPPED, ERROR]"

text \<open>
  Floats are values of a type \<open>'f\<close> and \<open>datetime\<close> objects values of a type \<open>'d\<close>; both
  types and their operations are parameters, so that nothing is assumed about rounding.
  The world the executor runs in (the clocks, and whatever the test function reads and
  writes) is a state of type \<open>'s\<close> that every effectful call takes and returns.
\<close>

record ('s, 'f, 'd) platform =
  time_time :: "'s \<Rightarrow> 'f \<times> 's"
  datetime_now :: "'s \<Rightarrow> 'd \<times> 's"
  float_sub :: "'f \<Rightarrow> 'f \<Rightarrow> 'f"
  float_add :: "'f \<Rightarrow> 'f \<Rightarrow> 'f"
  float_mul :: "'f \<Rightarrow> 'f \<Rightarrow> 'f"
  float_of_int :: "int \<Rightarrow> 'f"
  int_truediv :: "int \<Rightarrow> int \<Rightarrow> 'f"
  total_seconds :: "'d \<Rightarrow> 'd \<Rightarrow> 'f"
  str_float :: "'f \<Rightarrow> string"

text \<open>
  \<open>time_time\<close> is \<open>time.time()\<close>, \<open>datetime_now\<close> is \<open>datetime.now()\<close>,
  \<open>int_truediv a b\<close> is \<open>a / b\<close> on two integers with \<open>b \<noteq> 0\<close>,
  \<open>total_seconds a b\<close> is \<open>(a - b).total_seconds()\<close> and \<open>str_float x\<close> is the text an
  f-string gives for the float \<open>x\<close>.
\<close>

datatype 'f py_number = PyInt int | PyFloat 'f

text \<open>
  An exception raised by the test function, as far as the handlers of \<open>execute_test\<close> tell
  exceptions apart: an instance of \<open>TimeoutError\<close>, an instance of \<open>Exception\<close> that is no
  \<open>TimeoutError\<close>, or an instance of \<open>BaseException\<close> outside \<open>Exception\<close> (such as
  \<open>KeyboardInterrupt\<close> and \<open>SystemExit\<close>); \<open>exc_str\<close> is \<open>str(e)\<close>.
\<close>

datatype exc_kind = IsTimeoutError | IsException | IsBaseException

record py_exception =
  exc_kind :: exc_kind
  exc_str :: string

text \<open>A call of the test function returns an object, of which only the truth value is used, or raises.\<close>

datatype call_outcome = Returned bool | Raised py_exception

record ('f, 'd) TestResult =
  combination :: DimensionCombination
  status :: TestStatus
  execution_time :: 'f
  error_message :: "string option"
  metadata :: "(string, string) dict"
  timestamp :: 'd

record ('f, 'd) TestSuite =
  name :: string
  results :: "('f, 'd) TestResult list"
  start_time :: 'd
  end_time :: "'d option"

definition add_result :: "('f, 'd) TestSuite \<Rightarrow> ('f, 'd) TestResult \<Rightarrow> ('f, 'd) TestSuite" where
  "add_result self result = self\<lparr>results := results self @ [result]\<rparr>"

definition mark_complete ::
  "('s, 'f, 'd) platform \<Rightarrow> ('f, 'd) TestSuite \<Rightarrow> 's \<Rightarrow> ('f, 'd) TestSuite \<times> 's" where
  "mark_complete P self s = (let (now, s') = datetime_now P s in (self\<lparr>end_time := Some now\<rparr>, s'))"

subsection \<open>\<open>TestSuite.get_summary\<close>\<close>

record 'f summary =
  summary_name :: string
  total_tests :: int
  status_counts :: "(string, int) dict"
  total_execution_time :: "'f py_number"
  suite_duration :: "'f option"
  pass_rate :: "'f py_number"

text \<open>\<open>sum(floats)\<close> starts from the integer \<open>0\<close>.\<close>

fun py_add :: "('s, 'f, 'd) platform \<Rightarrow> 'f py_number \<Rightarrow> 'f \<Rightarrow> 'f py_number" where
  "py_add P (PyInt i) x = PyFloat (float_add P (float_of_int P i) x)"
| "py_add P (PyFloat a) x = PyFloat (float_add P a x)"

definition py_sum :: "('s, 'f, 'd) platform \<Rightarrow> 'f list \<Rightarrow> 'f py_number" where
  "py_sum P xs = foldl (py_add P) (PyInt 0) xs"

text \<open>\<open>a / b\<close> on integers raises \<open>ZeroDivisionError\<close> when \<open>b\<close> is zero.\<close>

definition py_truediv :: "('s, 'f, 'd) platform \<Rightarrow> int \<Rightarrow> int \<Rightarrow> py_error + 'f" where
  "py_truediv P a b = (if b = 0 then Inl ZeroDivisionError else Inr (int_truediv P a b))"

text \<open>The loop \<open>for status in TestStatus\<close> that fills \<open>status_counts\<close>.\<close>

fun count_statuses ::
  "TestStatus list \<Rightarrow> ('f, 'd) TestResult list \<Rightarrow> (string, int) dict \<Rightarrow> (string, int) dict" where
  "count_statuses [] rs counts = counts"
| "count_statuses (st # sts) rs counts =
     count_statuses sts rs
       (AList.update (status_value st) (int (length (filter (\<lambda>r. status r = st) rs))) counts)"

definition get_summary ::
  "('s, 'f, 'd) platform \<Rightarrow> ('f, 'd) TestSuite \<Rightarrow> py_error + 'f summary" where
  "get_summary P self =
     (let status_counts = count_statuses all_statuses (results self) [];
          total_time = py_sum P (map execution_time (results self));
          duration = (case end_time self of
                        None \<Rightarrow> None
                      | Some e \<Rightarrow> Some (total_seconds P e (start_time self)));
          rate = (if results self \<noteq> [] then
                    (case map_of status_counts ''passed'' of
                       None \<Rightarrow> Inl KeyError
                     | Some passed \<Rightarrow>
                         (case py_truediv P passed (int (length (results self))) of
                            Inl e \<Rightarrow> Inl e
                          | Inr q \<Rightarrow> Inr (PyFloat (float_mul P q (float_of_int P 100)))))
                  else Inr (PyInt 0))
      in case rate of
           Inl e \<Rightarrow> Inl e
         | Inr r \<Rightarrow>
             Inr \<lparr>summary_name = name self,
                  total_tests = int (length (results self)),
                  status_counts = status_counts,
                  total_execution_time = total_time,
                  suite_duration = duration,
                  pass_rate = r\<rparr>)"

subsection \<open>\<open>TestExecutor\<close>\<close>

record 's TestExecutor =
  test_function :: "DimensionCombination \<Rightarrow> 's \<Rightarrow> call_outcome \<times> 's"

definition default_test_function :: "DimensionCombination \<Rightarrow> 's \<Rightarrow> call_outcome \<times> 's" where
  "default_test_function combo s = (Returned True, s)"

text \<open>\<open>TestExecutor.__init__(test_function)\<close>\<close>

definition executor_init ::
  "(DimensionCombination \<Rightarrow> 's \<Rightarrow> call_outcome \<times> 's) option \<Rightarrow> 's TestExecutor" where
  "executor_init f =
     \<lparr>test_function = (case f of None \<Rightarrow> default_test_function | Some g \<Rightarrow> g)\<rparr>"

text \<open>The text of \<open>{timeout}\<close> in an f-string, for \<open>timeout: Optional[float]\<close>.\<close>

definition format_timeout :: "('s, 'f, 'd) platform \<Rightarrow> 'f option \<Rightarrow> string" where
  "format_timeout P timeout = (case timeout of None \<Rightarrow> ''None'' | Some x \<Rightarrow> str_float P x)"

text \<open>
  \<open>execute_test(combination, timeout)\<close>. The \<open>try\<close> statement yields the final status and
  error message, or lets an exception through that no handler matches. The statuses
  \<open>PENDING\<close> and \<open>RUNNING\<close> are only intermediate values of the local variable.
\<close>

definition try_test_function ::
  "('s, 'f, 'd) platform \<Rightarrow> 'f option \<Rightarrow> call_outcome \<Rightarrow> py_exception + TestStatus \<times> string option" where
  "try_test_function P timeout outcome =
     (case outcome of
        Returned result \<Rightarrow> Inr (if result then PASSED else FAILED, None)
      | Raised e \<Rightarrow>
          (case exc_kind e of
             IsTimeoutError \<Rightarrow>
               Inr (ERROR, Some (''Test timed out after '' @ format_timeout P timeout @ ''s''))
           | IsException \<Rightarrow> Inr (ERROR, Some (exc_str e))
           | IsBaseException \<Rightarrow> Inl e))"

definition execute_test ::
  "('s, 'f, 'd) platform \<Rightarrow> 's TestExecutor \<Rightarrow> DimensionCombination \<Rightarrow> 'f option \<Rightarrow> 's
     \<Rightarrow> (py_exception + ('f, 'd) TestResult) \<times> 's" where
  "execute_test P self combo timeout s0 =
     (let (start, s1) = time_time P s0;
          (outcome, s2) = test_function self combo s1
      in case try_test_function P timeout outcome of
           Inl e \<Rightarrow> (Inl e, s2)
         | Inr (st, msg) \<Rightarrow>
             (let (finish, s3) = time_time P s2;
                  (now, s4) = datetime_now P s3
              in (Inr \<lparr>combination = combo,
                       status = st,
                       execution_time = float_sub P finish start,
                       error_message = msg,
                       metadata = [],
                       timestamp = now\<rparr>, s4)))"

text \<open>
  \<open>execute_batch(combinations, suite_name)\<close> with \<open>parallel=False\<close>: the loop of the
  \<open>else\<close> branch. An exception that \<open>execute_test\<close> lets through ends the batch.
\<close>

fun batch_loop ::
  "('s, 'f, 'd) platform \<Rightarrow> 's TestExecutor \<Rightarrow> DimensionCombination list \<Rightarrow> ('f, 'd) TestSuite \<Rightarrow> 's
     \<Rightarrow> (py_exception + ('f, 'd) TestSuite) \<times> 's" where
  "batch_loop P self [] suite s = (Inr suite, s)"
| "batch_loop P self (combo # rest) suite s =
     (case execute_test P self combo None s of
        (Inl e, s') \<Rightarrow> (Inl e, s')
      | (Inr result, s') \<Rightarrow> batch_loop P self rest (add_result suite result) s')"

definition execute_batch ::
  "('s, 'f, 'd) platform \<Rightarrow> 's TestExecutor \<Rightarrow> DimensionCombination list \<Rightarrow> string \<Rightarrow> 's
     \<Rightarrow> (py_exception + ('f, 'd) TestSuite) \<times> 's" where
  "execute_batch P self combos suite_name s0 =
     (let (now, s1) = datetime_now P s0;
          suite = \<lparr>name = suite_name, results = [], start_time = now, end_time = None\<rparr>
      in case batch_loop P self combos suite s1 of
           (Inl e, s2) \<Rightarrow> (Inl e, s2)
         | (Inr suite, s2) \<Rightarrow> (let (suite, s3) = mark_complete P suite s2 in (Inr suite, s3)))"

subsection \<open>Notions used to state the executor's properties\<close>

text \<open>The test function raises nothing outside \<open>Exception\<close>.\<close>

definition raises_only_exceptions :: "'s TestExecutor \<Rightarrow> bool" where
  "raises_only_exceptions self =
     (\<forall>c s e. fst (test_function self c s) = Raised e \<longrightarrow> exc_kind e \<noteq> IsBaseException)"

text \<open>The test function raises an instance of \<open>Exception\<close> on every invocation.\<close>

definition always_raises :: "'s TestExecutor \<Rightarrow> bool" where
  "always_raises self =
     (\<forall>c s. \<exists>e. fst (test_function self c s) = Raised e \<and> exc_kind e \<noteq> IsBaseException)"

text \<open>The state in which the loop of \<open>execute_batch\<close> is after the given combinations.\<close>

fun state_after ::
  "('s, 'f, 'd) platform \<Rightarrow> 's TestExecutor \<Rightarrow> DimensionCombination list \<Rightarrow> 's \<Rightarrow> 's" where
  "state_after P self [] s = s"
| "state_after P self (combo # rest) s =
     state_after P self rest (snd (execute_test P self combo None s))"

section \<open>Properties of the generator\<close>

lemma length_DIMENSION_CLASSES: "length DIMENSION_CLASSES = 10"
  by (simp add: DIMENSION_CLASSES_def)

text \<open>
  Claim C9. Whatever the two constructor arguments are, the constructed generator has
  \<open>2 \<le> min_dimensions\<close> and \<open>max_dimensions \<le> len(DIMENSION_CLASSES)\<close>: a requested
  minimum below 2 becomes 2 and a requested maximum above the number of dimensions becomes
  that number; nothing is rejected.
\<close>

theorem init_clamps:
  "2 \<le> min_dimensions (init a b)
   \<and> max_dimensions (init a b) \<le> int (length DIMENSION_CLASSES)
   \<and> (a < 2 \<longrightarrow> min_dimensions (init a b) = 2)
   \<and> (2 \<le> a \<longrightarrow> min_dimensions (init a b) = a)
   \<and> (\<forall>m. b = Some m \<and> int (length DIMENSION_CLASSES) < m
          \<longrightarrow> max_dimensions (init a b) = int (length DIMENSION_CLASSES))"
  by (auto simp: init_def Let_def)

theorem init_clamps_witness:
  "min_dimensions (init (-3) (Some 25)) = 2 \<and> max_dimensions (init (-3) (Some 25)) = 10
   \<and> min_dimensions (init 4 (Some 25)) = 4"
  using init_clamps [of "-3" "Some 25"] init_clamps [of 4 "Some 25"]
  by (simp add: length_DIMENSION_CLASSES)

text \<open>
  Claim C6. For every integer \<open>k\<close> below 2 or above the number of registered dimensions,
  \<open>generate_dimension_groups k\<close> returns the empty list; it raises nothing.
\<close>

theorem generate_dimension_groups_invalid_size:
  "k < 2 \<or> int (length DIMENSION_CLASSES) < k \<Longrightarrow> generate_dimension_groups k = Inr []"
  by (auto simp: generate_dimension_groups_def)

theorem generate_dimension_groups_invalid_size_witness:
  "generate_dimension_groups 1 = Inr [] \<and> generate_dimension_groups (-4) = Inr []
   \<and> generate_dimension_groups 11 = Inr []"
  using generate_dimension_groups_invalid_size [of 1]
    generate_dimension_groups_invalid_size [of "-4"]
    generate_dimension_groups_invalid_size [of 11]
  by (simp add: length_DIMENSION_CLASSES)

end
